theory Spec2Isabelle
  imports Main "HOL-Library.Sublist"
begin

section \<open>The API generator of fast-starter\<close>

text \<open>
  The development embeds \<^verbatim>\<open>fast_starter/generators/file_generators/api_generator.py\<close>:
  the class \<^verbatim>\<open>APIGenerator\<close>, whose \<^verbatim>\<open>generate\<close> method writes the endpoints file,
  the auth file (when authentication is enabled) and the package index of the generated
  project's \<^verbatim>\<open>app/api/v1\<close> directory. Every method of the class is a definition below, under
  its own name without the leading underscore.
\<close>

subsection \<open>Configuration\<close>

text \<open>
  Modelled from the spec: the enums \<^verbatim>\<open>ProjectType\<close> and \<^verbatim>\<open>AuthType\<close> of \<^verbatim>\<open>core/config.py\<close>,
  which \<^verbatim>\<open>api_generator.py\<close> imports and whose declaration is missing. The spec gives the
  project type as
  \<^verbatim>\<open>enum{GENERIC, ML_API, MICROSERVICE}\<close> and the auth type as \<^verbatim>\<open>enum{NONE, <non-none variants>}\<close>
  without naming the other variants; \<open>Variant\<close> carries the name of such a member.
\<close>

datatype ProjectType = GENERIC | ML_API | MICROSERVICE

datatype AuthType = NONE | Variant string

text \<open>
  Python does not check what an attribute holds: a configuration object can carry, in an
  enum-typed field, a value that is no member of the enum. \<open>Member\<close> is a declared member.
  \<open>Foreign\<close> stands for a value outside the enum with ordinary equality, such as a string, a
  number or \<^verbatim>\<open>None\<close> (the string names it): compared with a member by \<^verbatim>\<open>==\<close> or \<^verbatim>\<open>!=\<close>, as
  the generator does, it is unequal to it. An object that brings a comparison of its own,
  one that answers equal to every operand or one that raises, is not a value of this type:
  what the generator does with it is decided by that comparison.
\<close>

datatype 'e py_field = Member 'e | Foreign string

text \<open>
  The attributes of \<^verbatim>\<open>self.config\<close> that the generator reads. The record is extensible: an
  object with further attributes is a value of \<open>'a Config_scheme\<close>.
\<close>

record Config =
  name :: string
  path :: string
  project_type :: "ProjectType py_field"
  auth_type :: "AuthType py_field"
  is_async :: bool

subsection \<open>Python strings\<close>

text \<open>
  A triple-quoted literal is written as the list of its lines; \<open>unlines\<close> ends each of them
  with a line feed, so that the two-line literal with lines a and b is \<open>unlines [''a'', ''b'']\<close>.
\<close>

definition unlines :: "string list \<Rightarrow> string" where
  "unlines ls = concat (map (\<lambda>l. l @ ''\<newline>'') ls)"

datatype py_value = Str string | Bool bool

fun py_str :: "py_value \<Rightarrow> string" where
  "py_str (Str s) = s"
| "py_str (Bool b) = (if b then ''True'' else ''False'')"

datatype py_error = KeyError string | IndexError | ValueError | NotModelled

text \<open>
  \<^verbatim>\<open>str.format\<close> with keyword arguments only, read left to right. Outside a replacement
  field, \<^verbatim>\<open>{{\<close> and \<^verbatim>\<open>}}\<close> stand for one brace and a lone brace is a \<^verbatim>\<open>ValueError\<close>. Inside
  a field (the second argument holds the name read so far) the closing brace looks the name
  up: a missing keyword is a \<^verbatim>\<open>KeyError\<close>; the empty name and a number ask for a positional
  argument and are an \<^verbatim>\<open>IndexError\<close>, since there is none. Conversions, format specifications,
  attribute and index access are not used by the generator; a field with one of them is
  \<open>NotModelled\<close>.
\<close>

definition emit :: "string \<Rightarrow> py_error + string \<Rightarrow> py_error + string" where
  "emit s r = (case r of Inl e \<Rightarrow> Inl e | Inr t \<Rightarrow> Inr (s @ t))"

fun py_format_from :: "(string \<times> py_value) list \<Rightarrow> string option \<Rightarrow> string \<Rightarrow> py_error + string" where
  "py_format_from kw None [] = Inr []"
| "py_format_from kw (Some f) [] = Inl ValueError"
| "py_format_from kw None (c # cs) =
    (if c = CHR ''{'' then
       (case cs of
          [] \<Rightarrow> Inl ValueError
        | d # ds \<Rightarrow> if d = CHR ''{'' then emit ''{'' (py_format_from kw None ds)
                    else py_format_from kw (Some []) cs)
     else if c = CHR ''}'' then
       (case cs of
          [] \<Rightarrow> Inl ValueError
        | d # ds \<Rightarrow> if d = CHR ''}'' then emit ''}'' (py_format_from kw None ds)
                    else Inl ValueError)
     else emit [c] (py_format_from kw None cs))"
| "py_format_from kw (Some f) (c # cs) =
    (if c = CHR ''}'' then
       (if list_all (\<lambda>d. d \<in> set ''0123456789'') f then Inl IndexError
        else case map_of kw f of
          None \<Rightarrow> Inl (KeyError f)
        | Some v \<Rightarrow> emit (py_str v) (py_format_from kw None cs))
     else if c = CHR ''{'' then Inl ValueError
     else if c \<in> set ''!:.['' then Inl NotModelled
     else py_format_from kw (Some (f @ [c])) cs)"

definition py_format :: "string \<Rightarrow> (string \<times> py_value) list \<Rightarrow> py_error + string" where
  "py_format template kw = py_format_from kw None template"

subsection \<open>Collaborators\<close>

text \<open>
  Modelled from the spec: the base class \<^verbatim>\<open>BaseGenerator\<close>, whose source is missing. Its
  \<^verbatim>\<open>write_file(path, content)\<close> hands one file to the file writer; the model keeps the calls in
  the order they were made and leaves the writer's own I/O failures out. Its
  \<^verbatim>\<open>get_template_vars()\<close> returns a dictionary of which the generator reads the entry
  \<^verbatim>\<open>project_name\<close>; the spec has one project name, the configuration's, "used for
  interpolation into banners/messages".
\<close>

type_synonym files = "(string \<times> string) list"

definition write_file :: "string \<Rightarrow> string \<Rightarrow> files \<Rightarrow> files" where
  "write_file p content fs = fs @ [(p, content)]"

definition get_template_vars :: "'a Config_scheme \<Rightarrow> (string \<times> string) list" where
  "get_template_vars c = [(''project_name'', name c)]"

subsection \<open>Templates\<close>

text \<open>The literal of \<^verbatim>\<open>_get_ml_endpoints\<close>, before \<^verbatim>\<open>.format\<close>.\<close>

definition ml_endpoints_template :: string where
  \<open>ml_endpoints_template = unlines
    ['''',
     ''@router.post("/predict")'',
     ''async def predict('',
     ''    input_data: dict,'',
     ''    current_user: User = Depends(get_current_user) if {has_auth} else None'',
     ''):'',
     ''    """Make ML prediction"""'',
     ''    from app.services.prediction_service import make_prediction'',
     ''    try:'',
     ''        result = await make_prediction(input_data)'',
     ''        return {{"prediction": result, "status": "success"}}'',
     ''    except Exception as e:'',
     ''        raise HTTPException(status_code=400, detail=str(e))'',
     '''',
     '''',
     ''@router.get("/model/info")'',
     ''async def get_model_info('',
     ''    current_user: User = Depends(get_current_user) if {has_auth} else None'',
     ''):'',
     ''    """Get ML model information"""'',
     ''    return {{'',
     ''        "model_name": "DefaultModel",'',
     ''        "version": "1.0.0",'',
     ''        "description": "Machine Learning model for predictions"'',
     ''    }}'']\<close>

definition get_ml_endpoints :: "'a Config_scheme \<Rightarrow> py_error + string" where
  "get_ml_endpoints c =
     py_format ml_endpoints_template
       [(''has_auth'', Bool (auth_type c \<noteq> Member NONE))]"

text \<open>The literal of \<^verbatim>\<open>_get_microservice_endpoints\<close>, before \<^verbatim>\<open>.format\<close>.\<close>

definition microservice_endpoints_template :: string where
  \<open>microservice_endpoints_template = unlines
    ['''',
     ''@router.get("/status")'',
     ''async def service_status():'',
     ''    """Get service status"""'',
     ''    return {{'',
     ''        "service": "{project_name}",'',
     ''        "status": "running",'',
     ''        "version": "1.0.0"'',
     ''    }}'',
     '''',
     '''',
     ''@router.post("/process")'',
     ''async def process_data('',
     ''    data: dict,'',
     ''    current_user: User = Depends(get_current_user) if {has_auth} else None'',
     ''):'',
     ''    """Process data"""'',
     ''    from app.services.processing_service import process_data'',
     ''    try:'',
     ''        result = await process_data(data)'',
     ''        return {{"result": result, "status": "processed"}}'',
     ''    except Exception as e:'',
     ''        raise HTTPException(status_code=400, detail=str(e))'']\<close>

definition get_microservice_endpoints :: "'a Config_scheme \<Rightarrow> py_error + string" where
  "get_microservice_endpoints c =
     py_format microservice_endpoints_template
       [(''project_name'', Str (name c)),
        (''has_auth'', Bool (auth_type c \<noteq> Member NONE))]"

text \<open>The literal of \<^verbatim>\<open>_get_endpoints_template\<close>, before \<^verbatim>\<open>.format\<close>.\<close>

definition endpoints_template :: string where
  \<open>endpoints_template = unlines
    [''"""'',
     ''Main API Endpoints'',
     ''"""'',
     '''',
     ''from fastapi import APIRouter, Depends, HTTPException, status'',
     ''{auth_imports}'',
     ''{database_imports}'',
     '''',
     ''router = APIRouter()'',
     '''',
     ''{auth_endpoints_include}'',
     '''',
     ''@router.get("/")'',
     ''async def root():'',
     ''    """Root endpoint"""'',
     ''    return {{"message": "Welcome to {project_name} API", "version": "1.0.0"}}'',
     '''',
     '''',
     ''@router.get("/health")'',
     ''async def health_check():'',
     ''    """Health check endpoint"""'',
     ''    return {{"status": "healthy", "service": "{project_name}"}}'',
     '''',
     ''{project_specific_endpoints}'']\<close>

text \<open>
  The values \<^verbatim>\<open>_get_endpoints_template\<close> gives its four local variables, each under the
  variable's name. \<^verbatim>\<open>auth_endpoints_include\<close> is assigned the empty string on both paths.
\<close>

definition auth_imports :: "'a Config_scheme \<Rightarrow> string" where
  "auth_imports c =
    (if auth_type c \<noteq> Member NONE
     then ''from app.core.security import get_current_user'' else '''')"

definition auth_endpoints_include :: "'a Config_scheme \<Rightarrow> string" where
  "auth_endpoints_include c = (if auth_type c \<noteq> Member NONE then '''' else '''')"

definition database_imports :: "'a Config_scheme \<Rightarrow> string" where
  "database_imports c =
    (if is_async c
     then ''from app.db.database import get_db\<newline>from sqlalchemy.ext.asyncio import AsyncSession\<newline>from app.models.auth import User''
     else ''from app.db.database import get_db\<newline>from sqlalchemy.orm import Session\<newline>from app.models.auth import User'')"

definition project_specific_endpoints :: "'a Config_scheme \<Rightarrow> py_error + string" where
  "project_specific_endpoints c =
    (if project_type c = Member ML_API then get_ml_endpoints c
     else if project_type c = Member MICROSERVICE then get_microservice_endpoints c
     else Inr '''')"

text \<open>
  The project-specific fragment is computed before \<^verbatim>\<open>format\<close> is called, and
  \<^verbatim>\<open>self.get_template_vars()["project_name"]\<close> is the first keyword argument evaluated.
\<close>

definition get_endpoints_template :: "'a Config_scheme \<Rightarrow> py_error + string" where
  "get_endpoints_template c =
    (case project_specific_endpoints c of
       Inl e \<Rightarrow> Inl e
     | Inr specific \<Rightarrow>
        (case map_of (get_template_vars c) ''project_name'' of
           None \<Rightarrow> Inl (KeyError ''project_name'')
         | Some project_name \<Rightarrow>
             py_format endpoints_template
               [(''project_name'', Str project_name),
                (''auth_imports'', Str (auth_imports c)),
                (''auth_endpoints_include'', Str (auth_endpoints_include c)),
                (''database_imports'', Str (database_imports c)),
                (''project_specific_endpoints'', Str specific)]))"

text \<open>
  The f-string of \<^verbatim>\<open>_get_auth_endpoints_template\<close>, as a function of the three names it
  interpolates. An f-string is compiled to the concatenation of its literal parts and the
  values of its expressions, \<^verbatim>\<open>{{\<close> and \<^verbatim>\<open>}}\<close> being single braces of the literal parts.
\<close>

definition auth_endpoints_fstring :: "string \<Rightarrow> string \<Rightarrow> string \<Rightarrow> string" where
  \<open>auth_endpoints_fstring session_import session_type await_keyword = unlines
    [''"""'',
     ''Authentication Endpoints'',
     ''"""'',
     '''',
     ''from datetime import timedelta'',
     ''from fastapi import APIRouter, Depends, HTTPException, status'',
     session_import,
     ''from app.core.config import settings'',
     ''from app.db.database import get_db'',
     ''from app.schemas.auth import Token, UserLogin, UserCreate, User as UserSchema'',
     ''from app.core.security import authenticate_user, create_access_token, get_current_user, create_user'',
     '''',
     ''router = APIRouter()'',
     '''',
     '''',
     ''@router.post("/token", response_model=Token)'',
     ''async def login_for_access_token('',
     ''    user_credentials: UserLogin,'',
     ''    db: '' @ session_type @ '' = Depends(get_db)'',
     ''):'',
     ''    """Login endpoint to get access token"""'',
     ''    user = '' @ await_keyword @ ''authenticate_user(db, user_credentials.email, user_credentials.password)'',
     ''    if not user:'',
     ''        raise HTTPException('',
     ''            status_code=status.HTTP_401_UNAUTHORIZED,'',
     ''            detail="Incorrect email or password",'',
     ''            headers={"WWW-Authenticate": "Bearer"},'',
     ''        )'',
     ''    '',
     ''    access_token_expires = timedelta(minutes=settings.ACCESS_TOKEN_EXPIRE_MINUTES)'',
     ''    access_token = create_access_token('',
     ''        data={"sub": user.email}, expires_delta=access_token_expires'',
     ''    )'',
     ''    '',
     ''    return {"access_token": access_token, "token_type": "bearer"}'',
     '''',
     '''',
     ''@router.post("/register", response_model=UserSchema, status_code=status.HTTP_201_CREATED)'',
     ''async def register_user('',
     ''    user_data: UserCreate,'',
     ''    db: '' @ session_type @ '' = Depends(get_db)'',
     ''):'',
     ''    """Register new user"""'',
     ''    # Check if user already exists'',
     ''    from app.core.security import get_user_by_email'',
     ''    existing_user = '' @ await_keyword @ ''get_user_by_email(db, user_data.email)'',
     ''    if existing_user:'',
     ''        raise HTTPException('',
     ''            status_code=status.HTTP_400_BAD_REQUEST,'',
     ''            detail="Email already registered"'',
     ''        )'',
     ''    '',
     ''    # Create new user'',
     ''    user = '' @ await_keyword @ ''create_user(db, user_data.email, user_data.password)'',
     ''    return user'',
     '''',
     '''',
     ''@router.get("/me", response_model=UserSchema)'',
     ''async def read_users_me(current_user: UserSchema = Depends(get_current_user)):'',
     ''    """Get current user information"""'',
     ''    return current_user'',
     '''',
     '''',
     ''@router.put("/me", response_model=UserSchema)'',
     ''async def update_user_me('',
     ''    user_update: dict,'',
     ''    current_user: UserSchema = Depends(get_current_user),'',
     ''    db: '' @ session_type @ '' = Depends(get_db)'',
     ''):    '',
     ''    """Update current user information"""'',
     ''    # Implementation for updating user profile'',
     ''    # This is a placeholder - implement based on your needs'',
     ''    return current_user'']\<close>

definition get_auth_endpoints_template :: "'a Config_scheme \<Rightarrow> string" where
  "get_auth_endpoints_template c =
    (if is_async c
     then auth_endpoints_fstring ''from sqlalchemy.ext.asyncio import AsyncSession'' ''AsyncSession'' ''await ''
     else auth_endpoints_fstring ''from sqlalchemy.orm import Session'' ''Session'' '''')"

text \<open>The two literals of \<^verbatim>\<open>_get_init_template\<close>.\<close>

definition init_template_auth :: string where
  \<open>init_template_auth = unlines
    [''"""'',
     ''API v1 Router'',
     ''"""'',
     '''',
     ''from fastapi import APIRouter'',
     ''from .endpoints import router as endpoints_router'',
     ''from .auth import router as auth_router'',
     '''',
     ''router = APIRouter()'',
     ''router.include_router(endpoints_router)'',
     ''router.include_router(auth_router, prefix="/auth", tags=["authentication"])'']\<close>

definition init_template_plain :: string where
  \<open>init_template_plain = unlines
    [''"""'',
     ''API v1 Router'',
     ''"""'',
     '''',
     ''from .endpoints import router'']\<close>

definition get_init_template :: "'a Config_scheme \<Rightarrow> string" where
  "get_init_template c =
    (if auth_type c \<noteq> Member NONE then init_template_auth else init_template_plain)"

subsection \<open>The generator\<close>

text \<open>
  \<^verbatim>\<open>generate\<close> runs on the files written so far and returns them with its own writes added.
  An exception raised while a content is computed leaves the method at that point, with the
  writes made before it.
\<close>

datatype outcome = Returned | Raised py_error

definition generate :: "'a Config_scheme \<Rightarrow> files \<Rightarrow> outcome \<times> files" where
  "generate c fs =
    (case get_endpoints_template c of
       Inl e \<Rightarrow> (Raised e, fs)
     | Inr endpoints_content \<Rightarrow>
        (let fs1 = write_file (path c @ ''/app/api/v1/endpoints.py'') endpoints_content fs;
             fs2 = (if auth_type c \<noteq> Member NONE
                    then write_file (path c @ ''/app/api/v1/auth.py'') (get_auth_endpoints_template c) fs1
                    else fs1)
         in (Returned, write_file (path c @ ''/app/api/v1/__init__.py'') (get_init_template c) fs2)))"

subsection \<open>The texts after interpolation\<close>

text \<open>
  What \<^verbatim>\<open>format\<close> makes of the three templates, as functions of the values of the
  replacement fields: \<open>h\<close> for \<^verbatim>\<open>has_auth\<close> (already rendered), \<open>n\<close> for \<^verbatim>\<open>project_name\<close>,
  \<open>a\<close>, \<open>d\<close>, \<open>i\<close> and \<open>f\<close> for \<^verbatim>\<open>auth_imports\<close>, \<^verbatim>\<open>database_imports\<close>,
  \<^verbatim>\<open>auth_endpoints_include\<close> and \<^verbatim>\<open>project_specific_endpoints\<close>. That these are the results
  of \<open>py_format\<close> is proved below.
\<close>

definition ml_endpoints_text :: "string \<Rightarrow> string" where
  \<open>ml_endpoints_text h = unlines
    ['''',
     ''@router.post("/predict")'',
     ''async def predict('',
     ''    input_data: dict,'',
     ''    current_user: User = Depends(get_current_user) if '' @ h @ '' else None'',
     ''):'',
     ''    """Make ML prediction"""'',
     ''    from app.services.prediction_service import make_prediction'',
     ''    try:'',
     ''        result = await make_prediction(input_data)'',
     ''        return {"prediction": result, "status": "success"}'',
     ''    except Exception as e:'',
     ''        raise HTTPException(status_code=400, detail=str(e))'',
     '''',
     '''',
     ''@router.get("/model/info")'',
     ''async def get_model_info('',
     ''    current_user: User = Depends(get_current_user) if '' @ h @ '' else None'',
     ''):'',
     ''    """Get ML model information"""'',
     ''    return {'',
     ''        "model_name": "DefaultModel",'',
     ''        "version": "1.0.0",'',
     ''        "description": "Machine Learning model for predictions"'',
     ''    }'']\<close>

definition microservice_endpoints_text :: "string \<Rightarrow> string \<Rightarrow> string" where
  \<open>microservice_endpoints_text n h = unlines
    ['''',
     ''@router.get("/status")'',
     ''async def service_status():'',
     ''    """Get service status"""'',
     ''    return {'',
     ''        "service": "'' @ n @ ''",'',
     ''        "status": "running",'',
     ''        "version": "1.0.0"'',
     ''    }'',
     '''',
     '''',
     ''@router.post("/process")'',
     ''async def process_data('',
     ''    data: dict,'',
     ''    current_user: User = Depends(get_current_user) if '' @ h @ '' else None'',
     ''):'',
     ''    """Process data"""'',
     ''    from app.services.processing_service import process_data'',
     ''    try:'',
     ''        result = await process_data(data)'',
     ''        return {"result": result, "status": "processed"}'',
     ''    except Exception as e:'',
     ''        raise HTTPException(status_code=400, detail=str(e))'']\<close>

definition endpoints_text :: "string \<Rightarrow> string \<Rightarrow> string \<Rightarrow> string \<Rightarrow> string \<Rightarrow> string" where
  \<open>endpoints_text a d i n f = unlines
    [''"""'',
     ''Main API Endpoints'',
     ''"""'',
     '''',
     ''from fastapi import APIRouter, Depends, HTTPException, status'',
     a,
     d,
     '''',
     ''router = APIRouter()'',
     '''',
     i,
     '''',
     ''@router.get("/")'',
     ''async def root():'',
     ''    """Root endpoint"""'',
     ''    return {"message": "Welcome to '' @ n @ '' API", "version": "1.0.0"}'',
     '''',
     '''',
     ''@router.get("/health")'',
     ''async def health_check():'',
     ''    """Health check endpoint"""'',
     ''    return {"status": "healthy", "service": "'' @ n @ ''"}'',
     '''',
     f]\<close>

text \<open>
  With them, the contents in closed form: the rendered \<^verbatim>\<open>has_auth\<close>, the project-specific
  fragment and the content of the endpoints file of a configuration.
\<close>

definition has_auth :: "'a Config_scheme \<Rightarrow> string" where
  "has_auth c = (if auth_type c \<noteq> Member NONE then ''True'' else ''False'')"

definition fragment :: "'a Config_scheme \<Rightarrow> string" where
  "fragment c =
    (if project_type c = Member ML_API then ml_endpoints_text (has_auth c)
     else if project_type c = Member MICROSERVICE
       then microservice_endpoints_text (name c) (has_auth c)
     else '''')"

definition endpoints_content :: "'a Config_scheme \<Rightarrow> string" where
  "endpoints_content c =
     endpoints_text (auth_imports c) (database_imports c) (auth_endpoints_include c) (name c)
       (fragment c)"

subsection \<open>Reading the written files\<close>

text \<open>The files one run of \<open>generate\<close> hands to the writer, in the order of the calls.\<close>

definition generated :: "'a Config_scheme \<Rightarrow> files" where
  "generated c = snd (generate c [])"

text \<open>The three paths \<open>generate\<close> writes to, as the f-strings of the source build them.\<close>

abbreviation endpoints_py :: "'a Config_scheme \<Rightarrow> string" where
  "endpoints_py c \<equiv> path c @ ''/app/api/v1/endpoints.py''"

abbreviation auth_py :: "'a Config_scheme \<Rightarrow> string" where
  "auth_py c \<equiv> path c @ ''/app/api/v1/auth.py''"

abbreviation init_py :: "'a Config_scheme \<Rightarrow> string" where
  "init_py c \<equiv> path c @ ''/app/api/v1/__init__.py''"

text \<open>
  The lines of a text (\<^verbatim>\<open>str.split("\n")\<close>) and the route decorators among them: the
  lines that start with \<^verbatim>\<open>@router.\<close>, each declaring one endpoint of the generated router.
  The templates contain no carriage return, so these are the lines of the generated source
  as long as no interpolated value brings one.
\<close>

fun split_lines :: "string \<Rightarrow> string list" where
  "split_lines [] = [[]]"
| "split_lines (c # cs) =
    (if c = CHR ''\<newline>'' then [] # split_lines cs
     else (case split_lines cs of l # ls \<Rightarrow> (c # l) # ls | [] \<Rightarrow> [[c]]))"

definition routes :: "string \<Rightarrow> string list" where
  "routes s = filter (prefix ''@router.'') (split_lines s)"

text \<open>
  A project name that stays inside the double-quoted string literal in which the templates
  put it: it has no double quote, no backslash and no control character (line feed and
  carriage return are control characters).
\<close>

definition stays_in_literal :: "string \<Rightarrow> bool" where
  "stays_in_literal n =
     list_all (\<lambda>ch. ch \<noteq> CHR 0x22 \<and> ch \<noteq> CHR 0x5C \<and> 32 \<le> (of_char ch :: nat)) n"

section \<open>Properties\<close>

subsection \<open>Formatting line by line\<close>

lemma emit_simps: "emit s (Inr t) = Inr (s @ t)" "emit s (Inl e) = Inl e"
  by (simp_all add: emit_def)

text \<open>
  A text that \<open>py_format_from\<close> reads to its end leaves it outside a replacement field, so a
  text appended to it is read from there.
\<close>

lemma py_format_from_append:
  "py_format_from kw m xs = Inr s \<Longrightarrow>
   py_format_from kw m (xs @ ys) = emit s (py_format_from kw None ys)"
proof (induction kw m xs arbitrary: s rule: py_format_from.induct)
  case (1 kw)
  then show ?case by (cases "py_format_from kw None ys") (simp_all add: emit_simps)
next
  case (2 kw f)
  then show ?case by simp
next
  case (3 kw c cs)
  then show ?case
    by (auto simp del: py_format_from.simps(4) simp: emit_def
        split: if_splits list.splits sum.splits)
next
  case (4 kw f c cs)
  then show ?case
    by (auto simp: emit_def split: if_splits option.splits sum.splits)
qed

lemma py_format_unlines:
  assumes "list_all2 (\<lambda>l l'. py_format l kw = Inr l') ls ls'"
  shows "py_format (unlines ls) kw = Inr (unlines ls')"
  using assms
proof (induction rule: list_all2_induct)
  case Nil
  show ?case by (simp add: unlines_def py_format_def)
next
  case (Cons l ls l' ls')
  have "py_format_from kw None (l @ ''\<newline>'') = Inr (l' @ ''\<newline>'')"
    using py_format_from_append[of kw None l l' "''\<newline>''"] Cons.hyps(1)
    by (simp add: py_format_def emit_simps)
  then have "py_format_from kw None ((l @ ''\<newline>'') @ unlines ls)
      = emit (l' @ ''\<newline>'') (py_format_from kw None (unlines ls))"
    by (rule py_format_from_append)
  then show ?case using Cons.IH
    by (simp add: unlines_def py_format_def emit_simps)
qed

lemma ml_format:
  "py_format ml_endpoints_template [(''has_auth'', v)] = Inr (ml_endpoints_text (py_str v))"
  unfolding ml_endpoints_template_def ml_endpoints_text_def
  by (rule py_format_unlines, intro list.rel_intros)
     (simp_all add: py_format_def emit_simps)

lemma microservice_format:
  "py_format microservice_endpoints_template [(''project_name'', Str n), (''has_auth'', v)]
     = Inr (microservice_endpoints_text n (py_str v))"
  unfolding microservice_endpoints_template_def microservice_endpoints_text_def
  by (rule py_format_unlines, intro list.rel_intros)
     (simp_all add: py_format_def emit_simps)

lemma endpoints_format:
  "py_format endpoints_template
     [(''project_name'', Str n), (''auth_imports'', Str a), (''auth_endpoints_include'', Str i),
      (''database_imports'', Str d), (''project_specific_endpoints'', Str f)]
     = Inr (endpoints_text a d i n f)"
  unfolding endpoints_template_def endpoints_text_def
  by (rule py_format_unlines, intro list.rel_intros)
     (simp_all add: py_format_def emit_simps)

subsection \<open>The contents in closed form\<close>

lemma get_ml_endpoints_eq: "get_ml_endpoints c = Inr (ml_endpoints_text (has_auth c))"
  by (simp add: get_ml_endpoints_def ml_format has_auth_def)

lemma get_microservice_endpoints_eq:
  "get_microservice_endpoints c = Inr (microservice_endpoints_text (name c) (has_auth c))"
  by (simp add: get_microservice_endpoints_def microservice_format has_auth_def)

lemma project_specific_endpoints_eq: "project_specific_endpoints c = Inr (fragment c)"
  by (simp add: project_specific_endpoints_def fragment_def get_ml_endpoints_eq
      get_microservice_endpoints_eq)

lemma get_endpoints_template_eq: "get_endpoints_template c = Inr (endpoints_content c)"
  by (simp add: get_endpoints_template_def project_specific_endpoints_eq get_template_vars_def
      endpoints_format endpoints_content_def)

lemma generate_eq: "generate c fs = (Returned, fs @ generated c)"
  by (simp add: generate_def generated_def get_endpoints_template_eq write_file_def Let_def)

lemma generated_eq:
  "generated c =
     (path c @ ''/app/api/v1/endpoints.py'', endpoints_content c) #
     (if auth_type c \<noteq> Member NONE
      then [(path c @ ''/app/api/v1/auth.py'', get_auth_endpoints_template c)] else []) @
     [(path c @ ''/app/api/v1/__init__.py'', get_init_template c)]"
  by (simp add: generate_def generated_def get_endpoints_template_eq write_file_def Let_def)

text \<open>
  The files of a run are decided by the five attributes the generator reads: two
  configuration objects that agree on them get the same files, whatever else they carry.
\<close>

lemma generated_depends_on_read_attributes:
  fixes c :: "'a Config_scheme" and c' :: "'b Config_scheme"
  assumes "name c = name c'" and "path c = path c'"
    and "project_type c = project_type c'" and "auth_type c = auth_type c'"
    and "is_async c = is_async c'"
  shows "generated c = generated c'"
proof -
  have "endpoints_content c = endpoints_content c'"
    using assms
    by (simp add: endpoints_content_def auth_imports_def database_imports_def
        auth_endpoints_include_def fragment_def has_auth_def)
  moreover have "get_auth_endpoints_template c = get_auth_endpoints_template c'"
    using assms by (simp add: get_auth_endpoints_template_def)
  moreover have "get_init_template c = get_init_template c'"
    using assms by (simp add: get_init_template_def)
  ultimately show ?thesis
    using assms by (simp add: generated_eq)
qed

subsection \<open>Searching a text\<close>

text \<open>
  An occurrence of \<open>p\<close> cannot reach across a character that \<open>p\<close> does not contain. A text
  is therefore searched line by line, and a line with an interpolated value piece by piece.
\<close>

lemma sublist_sep:
  assumes "c \<notin> set p"
  shows "sublist p (xs @ c # ys) \<longleftrightarrow> sublist p xs \<or> sublist p ys"
proof -
  have stop: "q = []" if "prefix q (c # ys)" and "set q \<subseteq> set p" for q
    using that assms by (cases q) auto
  have "sublist p (c # ys) \<longleftrightarrow> p = [] \<or> sublist p ys"
    using stop[of p] by (auto simp: sublist_Cons_right)
  moreover have "sublist p xs"
    if "p = p1 @ p2" and "suffix p1 xs" and "prefix p2 (c # ys)" for p1 p2
  proof -
    from that have "p2 = []" using stop[of p2] by auto
    with that show ?thesis by auto
  qed
  ultimately show ?thesis
    by (auto simp: sublist_append)
qed

lemma unlines_Cons: "unlines (l # ls) = l @ CHR ''\<newline>'' # unlines ls"
  by (simp add: unlines_def)

lemma unlines_append: "unlines (ks @ ls) = unlines ks @ unlines ls"
  by (simp add: unlines_def)

lemma sublist_unlines:
  assumes "p \<noteq> []" and "CHR ''\<newline>'' \<notin> set p"
  shows "sublist p (unlines ls) \<longleftrightarrow> list_ex (sublist p) ls"
proof (induction ls)
  case Nil
  show ?case using assms by (simp add: unlines_def)
next
  case (Cons l ls)
  then show ?case using assms by (simp add: unlines_Cons sublist_sep)
qed

lemma sublist_unlines_line:
  assumes "l \<in> set ls"
  shows "sublist l (unlines ls)"
proof -
  from assms obtain ks ms where "ls = ks @ l # ms"
    by (auto simp: in_set_conv_decomp)
  then have "unlines ls = unlines ks @ l @ (CHR ''\<newline>'' # unlines ms)"
    by (simp add: unlines_append unlines_Cons)
  then show ?thesis by simp
qed

lemma sublist_trans: "sublist p s \<Longrightarrow> sublist s t \<Longrightarrow> sublist p t"
  by (rule sublist_order.order_trans)

text \<open>The rewrite rules that decide an occurrence in a literal text.\<close>

lemmas scan =
  sublist_unlines sublist_sep sublist_Cons_right Cons_prefix_Cons Nil_prefix prefix_Nil
  sublist_Nil_right list.simps char.inject simp_thms append.simps
  list_ex_Cons_iff list_ex_Nil_iff insert_iff empty_iff

subsection \<open>Occurrences in the endpoints file\<close>

text \<open>
  Five texts with no blank, quote or line feed occur in the formatted templates exactly
  where an interpolated value brings them.
\<close>

lemma endpoints_text_scan:
  \<open>sublist ''/auth'' (endpoints_text a d i n f) \<longleftrightarrow>
     sublist ''/auth'' a \<or> sublist ''/auth'' d \<or> sublist ''/auth'' i \<or>
     sublist ''/auth'' n \<or> sublist ''/auth'' f\<close>
  \<open>sublist ''AsyncSession'' (endpoints_text a d i n f) \<longleftrightarrow>
     sublist ''AsyncSession'' a \<or> sublist ''AsyncSession'' d \<or>
     sublist ''AsyncSession'' i \<or> sublist ''AsyncSession'' n \<or>
     sublist ''AsyncSession'' f\<close>
  \<open>sublist ''sqlalchemy.ext.asyncio'' (endpoints_text a d i n f) \<longleftrightarrow>
     sublist ''sqlalchemy.ext.asyncio'' a \<or> sublist ''sqlalchemy.ext.asyncio'' d \<or>
     sublist ''sqlalchemy.ext.asyncio'' i \<or> sublist ''sqlalchemy.ext.asyncio'' n \<or>
     sublist ''sqlalchemy.ext.asyncio'' f\<close>
  \<open>sublist ''sqlalchemy.orm'' (endpoints_text a d i n f) \<longleftrightarrow>
     sublist ''sqlalchemy.orm'' a \<or> sublist ''sqlalchemy.orm'' d \<or>
     sublist ''sqlalchemy.orm'' i \<or> sublist ''sqlalchemy.orm'' n \<or>
     sublist ''sqlalchemy.orm'' f\<close>
  \<open>sublist ''app.core.security'' (endpoints_text a d i n f) \<longleftrightarrow>
     sublist ''app.core.security'' a \<or> sublist ''app.core.security'' d \<or>
     sublist ''app.core.security'' i \<or> sublist ''app.core.security'' n \<or>
     sublist ''app.core.security'' f\<close>
  by (simp_all only: endpoints_text_def scan)

lemma ml_endpoints_text_scan:
  \<open>sublist ''/auth'' (ml_endpoints_text h) \<longleftrightarrow>
     sublist ''/auth'' h\<close>
  \<open>sublist ''AsyncSession'' (ml_endpoints_text h) \<longleftrightarrow>
     sublist ''AsyncSession'' h\<close>
  \<open>sublist ''sqlalchemy.ext.asyncio'' (ml_endpoints_text h) \<longleftrightarrow>
     sublist ''sqlalchemy.ext.asyncio'' h\<close>
  \<open>sublist ''sqlalchemy.orm'' (ml_endpoints_text h) \<longleftrightarrow>
     sublist ''sqlalchemy.orm'' h\<close>
  \<open>sublist ''app.core.security'' (ml_endpoints_text h) \<longleftrightarrow>
     sublist ''app.core.security'' h\<close>
  \<open>sublist ''/status'' (ml_endpoints_text h) \<longleftrightarrow>
     sublist ''/status'' h\<close>
  \<open>sublist ''/process'' (ml_endpoints_text h) \<longleftrightarrow>
     sublist ''/process'' h\<close>
  by (simp_all only: ml_endpoints_text_def scan)

lemma microservice_endpoints_text_scan:
  \<open>sublist ''/auth'' (microservice_endpoints_text n h) \<longleftrightarrow>
     sublist ''/auth'' n \<or> sublist ''/auth'' h\<close>
  \<open>sublist ''AsyncSession'' (microservice_endpoints_text n h) \<longleftrightarrow>
     sublist ''AsyncSession'' n \<or> sublist ''AsyncSession'' h\<close>
  \<open>sublist ''sqlalchemy.ext.asyncio'' (microservice_endpoints_text n h) \<longleftrightarrow>
     sublist ''sqlalchemy.ext.asyncio'' n \<or> sublist ''sqlalchemy.ext.asyncio'' h\<close>
  \<open>sublist ''sqlalchemy.orm'' (microservice_endpoints_text n h) \<longleftrightarrow>
     sublist ''sqlalchemy.orm'' n \<or> sublist ''sqlalchemy.orm'' h\<close>
  \<open>sublist ''app.core.security'' (microservice_endpoints_text n h) \<longleftrightarrow>
     sublist ''app.core.security'' n \<or> sublist ''app.core.security'' h\<close>
  \<open>sublist ''/predict'' (microservice_endpoints_text n h) \<longleftrightarrow>
     sublist ''/predict'' n \<or> sublist ''/predict'' h\<close>
  \<open>sublist ''/model/info'' (microservice_endpoints_text n h) \<longleftrightarrow>
     sublist ''/model/info'' n \<or> sublist ''/model/info'' h\<close>
  by (simp_all only: microservice_endpoints_text_def scan)

lemma fragment_scan:
  \<open>sublist ''/auth'' (fragment c) \<longleftrightarrow>
     project_type c = Member MICROSERVICE \<and> sublist ''/auth'' (name c)\<close>
  \<open>sublist ''AsyncSession'' (fragment c) \<longleftrightarrow>
     project_type c = Member MICROSERVICE \<and> sublist ''AsyncSession'' (name c)\<close>
  \<open>sublist ''sqlalchemy.ext.asyncio'' (fragment c) \<longleftrightarrow>
     project_type c = Member MICROSERVICE \<and> sublist ''sqlalchemy.ext.asyncio'' (name c)\<close>
  \<open>sublist ''sqlalchemy.orm'' (fragment c) \<longleftrightarrow>
     project_type c = Member MICROSERVICE \<and> sublist ''sqlalchemy.orm'' (name c)\<close>
  \<open>sublist ''app.core.security'' (fragment c) \<longleftrightarrow>
     project_type c = Member MICROSERVICE \<and> sublist ''app.core.security'' (name c)\<close>
  by (simp_all add: fragment_def has_auth_def ml_endpoints_text_scan
      microservice_endpoints_text_scan sublist_Cons_right)

lemma endpoints_content_scan:
  \<open>sublist ''/auth'' (endpoints_content c) \<longleftrightarrow> sublist ''/auth'' (name c)\<close>
  \<open>sublist ''AsyncSession'' (endpoints_content c) \<longleftrightarrow>
     is_async c \<or> sublist ''AsyncSession'' (name c)\<close>
  \<open>sublist ''sqlalchemy.ext.asyncio'' (endpoints_content c) \<longleftrightarrow>
     is_async c \<or> sublist ''sqlalchemy.ext.asyncio'' (name c)\<close>
  \<open>sublist ''sqlalchemy.orm'' (endpoints_content c) \<longleftrightarrow>
     \<not> is_async c \<or> sublist ''sqlalchemy.orm'' (name c)\<close>
  \<open>sublist ''app.core.security'' (endpoints_content c) \<longleftrightarrow>
     auth_type c \<noteq> Member NONE \<or> sublist ''app.core.security'' (name c)\<close>
  by (auto simp add: endpoints_content_def endpoints_text_scan fragment_scan auth_imports_def
      database_imports_def auth_endpoints_include_def sublist_Cons_right)

text \<open>The database imports and the project-specific fragment are lines of the endpoints file.\<close>

lemma database_imports_in_endpoints_content:
  "sublist (database_imports c) (endpoints_content c)"
  unfolding endpoints_content_def endpoints_text_def
  by (rule sublist_unlines_line) (simp only: list.set insert_iff simp_thms)

lemma fragment_in_endpoints_content: "sublist (fragment c) (endpoints_content c)"
  unfolding endpoints_content_def endpoints_text_def
  by (rule sublist_unlines_line) (simp only: list.set insert_iff simp_thms)

lemma database_imports_lines:
  \<open>sublist ''from app.models.auth import User'' (database_imports c)\<close>
  \<open>\<not> is_async c \<Longrightarrow> sublist ''from sqlalchemy.orm import Session'' (database_imports c)\<close>
  \<open>is_async c \<Longrightarrow> sublist ''from sqlalchemy.ext.asyncio import AsyncSession'' (database_imports c)\<close>
  by (simp_all add: database_imports_def sublist_Cons_right)

lemma fragment_positive:
  \<open>sublist ''Depends(get_current_user) if False else None'' (ml_endpoints_text ''False'')\<close>
  \<open>sublist ''Depends(get_current_user) if False else None'' (microservice_endpoints_text n ''False'')\<close>
  \<open>sublist ''result = await make_prediction(input_data)'' (ml_endpoints_text h)\<close>
  \<open>sublist ''result = await process_data(data)'' (microservice_endpoints_text n h)\<close>
  \<open>sublist ''@router.get("/status")'' (microservice_endpoints_text n h)\<close>
  \<open>sublist ''@router.post("/process")'' (microservice_endpoints_text n h)\<close>
  by (simp_all only: ml_endpoints_text_def microservice_endpoints_text_def scan)

subsection \<open>Occurrences in the auth file and the index file\<close>

lemma auth_sync_scan:
  \<open>sublist ''from sqlalchemy.orm import Session''
     (auth_endpoints_fstring ''from sqlalchemy.orm import Session'' ''Session'' '''')\<close>
  \<open>sublist ''db: Session = Depends(get_db)''
     (auth_endpoints_fstring ''from sqlalchemy.orm import Session'' ''Session'' '''')\<close>
  \<open>sublist ''user = authenticate_user(''
     (auth_endpoints_fstring ''from sqlalchemy.orm import Session'' ''Session'' '''')\<close>
  \<open>sublist ''existing_user = get_user_by_email(''
     (auth_endpoints_fstring ''from sqlalchemy.orm import Session'' ''Session'' '''')\<close>
  \<open>sublist ''user = create_user(''
     (auth_endpoints_fstring ''from sqlalchemy.orm import Session'' ''Session'' '''')\<close>
  \<open>\<not> sublist ''AsyncSession''
     (auth_endpoints_fstring ''from sqlalchemy.orm import Session'' ''Session'' '''')\<close>
  \<open>\<not> sublist ''sqlalchemy.ext.asyncio''
     (auth_endpoints_fstring ''from sqlalchemy.orm import Session'' ''Session'' '''')\<close>
  \<open>\<not> sublist ''await''
     (auth_endpoints_fstring ''from sqlalchemy.orm import Session'' ''Session'' '''')\<close>
  by (simp_all only: auth_endpoints_fstring_def scan)

lemma auth_async_scan:
  \<open>sublist ''from sqlalchemy.ext.asyncio import AsyncSession''
     (auth_endpoints_fstring ''from sqlalchemy.ext.asyncio import AsyncSession''
        ''AsyncSession'' ''await '')\<close>
  \<open>sublist ''db: AsyncSession = Depends(get_db)''
     (auth_endpoints_fstring ''from sqlalchemy.ext.asyncio import AsyncSession''
        ''AsyncSession'' ''await '')\<close>
  \<open>sublist ''user = await authenticate_user(''
     (auth_endpoints_fstring ''from sqlalchemy.ext.asyncio import AsyncSession''
        ''AsyncSession'' ''await '')\<close>
  \<open>sublist ''existing_user = await get_user_by_email(''
     (auth_endpoints_fstring ''from sqlalchemy.ext.asyncio import AsyncSession''
        ''AsyncSession'' ''await '')\<close>
  \<open>sublist ''user = await create_user(''
     (auth_endpoints_fstring ''from sqlalchemy.ext.asyncio import AsyncSession''
        ''AsyncSession'' ''await '')\<close>
  \<open>\<not> sublist ''sqlalchemy.orm''
     (auth_endpoints_fstring ''from sqlalchemy.ext.asyncio import AsyncSession''
        ''AsyncSession'' ''await '')\<close>
  \<open>\<not> sublist '': Session''
     (auth_endpoints_fstring ''from sqlalchemy.ext.asyncio import AsyncSession''
        ''AsyncSession'' ''await '')\<close>
  \<open>\<not> sublist ''= authenticate_user(''
     (auth_endpoints_fstring ''from sqlalchemy.ext.asyncio import AsyncSession''
        ''AsyncSession'' ''await '')\<close>
  \<open>\<not> sublist ''= get_user_by_email(''
     (auth_endpoints_fstring ''from sqlalchemy.ext.asyncio import AsyncSession''
        ''AsyncSession'' ''await '')\<close>
  \<open>\<not> sublist ''= create_user(''
     (auth_endpoints_fstring ''from sqlalchemy.ext.asyncio import AsyncSession''
        ''AsyncSession'' ''await '')\<close>
  by (simp_all only: auth_endpoints_fstring_def scan)

lemma init_plain_scan:
  \<open>sublist ''from .endpoints import router'' init_template_plain\<close>
  \<open>\<not> sublist ''include_router'' init_template_plain\<close>
  \<open>\<not> sublist ''APIRouter'' init_template_plain\<close>
  \<open>\<not> sublist ''/auth'' init_template_plain\<close>
  \<open>\<not> sublist ''Session'' init_template_plain\<close>
  \<open>\<not> sublist ''sqlalchemy'' init_template_plain\<close>
  \<open>\<not> sublist ''await'' init_template_plain\<close>
  by (simp_all only: init_template_plain_def scan)

lemma init_auth_scan:
  \<open>sublist ''router.include_router(auth_router, prefix="/auth", tags=["authentication"])''
     init_template_auth\<close>
  \<open>sublist ''router.include_router(endpoints_router)'' init_template_auth\<close>
  \<open>\<not> sublist ''Session'' init_template_auth\<close>
  \<open>\<not> sublist ''sqlalchemy'' init_template_auth\<close>
  \<open>\<not> sublist ''await'' init_template_auth\<close>
  by (simp_all only: init_template_auth_def scan)

subsection \<open>The route decorators of a text\<close>

lemma split_lines_not_Nil: "split_lines s \<noteq> []"
  by (induction s) (auto split: list.splits)

lemma split_lines_line:
  "CHR ''\<newline>'' \<notin> set l \<Longrightarrow> split_lines (l @ CHR ''\<newline>'' # s) = l # split_lines s"
  by (induction l) (auto split: list.splits simp: split_lines_not_Nil)

lemma split_lines_unlines:
  "list_all (\<lambda>l. CHR ''\<newline>'' \<notin> set l) ls \<Longrightarrow> split_lines (unlines ls) = ls @ [[]]"
  by (induction ls) (simp_all add: unlines_Cons split_lines_line unlines_def)

lemma routes_unlines:
  "list_all (\<lambda>l. CHR ''\<newline>'' \<notin> set l) ls \<Longrightarrow>
   routes (unlines ls) = filter (prefix ''@router.'') ls"
  by (simp add: routes_def split_lines_unlines)

lemmas lines_scan =
  routes_unlines list_all_Nil_iff list_all_Cons_iff list.simps insert_iff empty_iff
  set_append Un_iff char.inject
  simp_thms append.simps filter.simps if_True if_False Cons_prefix_Cons Nil_prefix prefix_Nil

lemma routes_ml_endpoints_text:
  assumes "CHR ''\<newline>'' \<notin> set h"
  shows \<open>routes (ml_endpoints_text h) = [''@router.post("/predict")'', ''@router.get("/model/info")'']\<close>
  using assms by (simp only: ml_endpoints_text_def lines_scan cong: if_weak_cong)

lemma routes_microservice_endpoints_text:
  assumes "CHR ''\<newline>'' \<notin> set n" and "CHR ''\<newline>'' \<notin> set h"
  shows \<open>routes (microservice_endpoints_text n h) =
    [''@router.get("/status")'', ''@router.post("/process")'']\<close>
  using assms by (simp only: microservice_endpoints_text_def lines_scan cong: if_weak_cong)

lemma routes_auth_endpoints_fstring:
  assumes "CHR ''\<newline>'' \<notin> set si" and "CHR ''\<newline>'' \<notin> set st"
    and "CHR ''\<newline>'' \<notin> set aw" and "\<not> prefix ''@router.'' si"
  shows \<open>routes (auth_endpoints_fstring si st aw) =
    [''@router.post("/token", response_model=Token)'',
     ''@router.post("/register", response_model=UserSchema, status_code=status.HTTP_201_CREATED)'',
     ''@router.get("/me", response_model=UserSchema)'',
     ''@router.put("/me", response_model=UserSchema)'']\<close>
  using assms by (simp only: auth_endpoints_fstring_def lines_scan cong: if_weak_cong)

subsection \<open>The files of a run\<close>

lemma generated_paths:
  "map fst (generated c) =
     endpoints_py c # (if auth_type c \<noteq> Member NONE then [auth_py c] else []) @ [init_py c]"
  by (simp add: generated_eq)

lemma generated_lookup:
  "map_of (generated c) (endpoints_py c) = Some (endpoints_content c)"
  "map_of (generated c) (init_py c) = Some (get_init_template c)"
  "auth_type c \<noteq> Member NONE \<Longrightarrow>
     map_of (generated c) (auth_py c) = Some (get_auth_endpoints_template c)"
  by (simp_all add: generated_eq)

text \<open>
  C2 (as amended). With \<open>auth_type = NONE\<close> the run writes the endpoints file and the index
  file and no auth file. The index file is the single re-export
  \<^verbatim>\<open>from .endpoints import router\<close>: it builds no router and includes none, and the text
  \<^verbatim>\<open>/auth\<close> is not in it. The endpoints file interpolates the project name, and \<^verbatim>\<open>/auth\<close>
  occurs in it exactly when it occurs in the project name.
\<close>

theorem auth_none_output:
  assumes "auth_type c = Member NONE"
  shows \<open>map fst (generated c) = [endpoints_py c, init_py c]
    \<and> auth_py c \<notin> set (map fst (generated c))
    \<and> map_of (generated c) (init_py c)
        = Some (unlines [''"""'', ''API v1 Router'', ''"""'', '''', ''from .endpoints import router''])
    \<and> \<not> sublist ''include_router'' (get_init_template c)
    \<and> \<not> sublist ''APIRouter'' (get_init_template c)
    \<and> \<not> sublist ''/auth'' (get_init_template c)
    \<and> map_of (generated c) (endpoints_py c) = Some (endpoints_content c)
    \<and> (sublist ''/auth'' (endpoints_content c) \<longleftrightarrow> sublist ''/auth'' (name c))\<close>
proof -
  have "get_init_template c = init_template_plain"
    using assms by (simp add: get_init_template_def)
  then show ?thesis
    using assms
    by (simp add: generated_paths generated_lookup init_plain_scan endpoints_content_scan)
       (simp add: init_template_plain_def)
qed

theorem auth_none_output_witness:
  \<open>map fst (generated \<lparr>name = ''shop'', path = ''out'', project_type = Member GENERIC,
                        auth_type = Member NONE, is_async = False\<rparr>)
      = [''out/app/api/v1/endpoints.py'', ''out/app/api/v1/__init__.py'']
    \<and> ''out/app/api/v1/auth.py''
        \<notin> set (map fst (generated \<lparr>name = ''shop'', path = ''out'', project_type = Member GENERIC,
                                    auth_type = Member NONE, is_async = False\<rparr>))
    \<and> \<not> sublist ''/auth''
        (endpoints_content \<lparr>name = ''shop'', path = ''out'', project_type = Member GENERIC,
                            auth_type = Member NONE, is_async = False\<rparr>)\<close>
  using auth_none_output
    [of "\<lparr>name = ''shop'', path = ''out'', project_type = Member GENERIC,
          auth_type = Member NONE, is_async = False\<rparr>"]
  by (simp add: sublist_Cons_right)

text \<open>
  The claim as stated fails where the project name itself contains \<^verbatim>\<open>/auth\<close>: the root
  endpoint of the endpoints file then reads \<^verbatim>\<open>Welcome to /auth API\<close>.
\<close>

theorem auth_none_prefix_text_counterexample:
  \<open>auth_type \<lparr>name = ''/auth'', path = ''out'', project_type = Member GENERIC,
               auth_type = Member NONE, is_async = False\<rparr> = Member NONE
    \<and> map_of (generated \<lparr>name = ''/auth'', path = ''out'', project_type = Member GENERIC,
                          auth_type = Member NONE, is_async = False\<rparr>)
         ''out/app/api/v1/endpoints.py''
       = Some (endpoints_content \<lparr>name = ''/auth'', path = ''out'',
                 project_type = Member GENERIC, auth_type = Member NONE, is_async = False\<rparr>)
    \<and> sublist ''Welcome to /auth API''
         (endpoints_content \<lparr>name = ''/auth'', path = ''out'', project_type = Member GENERIC,
                             auth_type = Member NONE, is_async = False\<rparr>)\<close>
proof -
  let ?c = "\<lparr>name = ''/auth'', path = ''out'', project_type = Member GENERIC,
             auth_type = Member NONE, is_async = False\<rparr>"
  have "endpoints_content ?c = endpoints_text [] (database_imports ?c) [] ''/auth'' []"
    by (simp add: endpoints_content_def auth_imports_def auth_endpoints_include_def fragment_def)
  moreover have \<open>sublist ''Welcome to /auth API'' (endpoints_text a d i ''/auth'' f)\<close> for a d i f
    by (simp only: endpoints_text_def scan)
  ultimately have \<open>sublist ''Welcome to /auth API'' (endpoints_content ?c)\<close>
    by simp
  then show ?thesis
    using generated_lookup(1)[of ?c] by simp
qed

text \<open>
  C3. With \<open>auth_type \<noteq> NONE\<close> the run writes the auth file between the endpoints file and
  the index file, and the index file mounts the auth router under the prefix \<^verbatim>\<open>/auth\<close> with
  the tag \<^verbatim>\<open>authentication\<close>.
\<close>

theorem auth_enabled_output:
  assumes "auth_type c \<noteq> Member NONE"
  shows \<open>map fst (generated c) = [endpoints_py c, auth_py c, init_py c]
    \<and> map_of (generated c) (auth_py c) = Some (get_auth_endpoints_template c)
    \<and> map_of (generated c) (init_py c) = Some (get_init_template c)
    \<and> sublist ''router.include_router(auth_router, prefix="/auth", tags=["authentication"])''
         (get_init_template c)\<close>
  using assms
  by (simp add: generated_paths generated_lookup get_init_template_def init_auth_scan)

theorem auth_enabled_output_witness:
  \<open>map fst (generated \<lparr>name = ''shop'', path = ''out'', project_type = Member GENERIC,
                        auth_type = Member (Variant ''jwt''), is_async = False\<rparr>)
      = [''out/app/api/v1/endpoints.py'', ''out/app/api/v1/auth.py'', ''out/app/api/v1/__init__.py'']
    \<and> sublist ''router.include_router(auth_router, prefix="/auth", tags=["authentication"])''
         (get_init_template \<lparr>name = ''shop'', path = ''out'', project_type = Member GENERIC,
                              auth_type = Member (Variant ''jwt''), is_async = False\<rparr>)\<close>
  using auth_enabled_output
    [of "\<lparr>name = ''shop'', path = ''out'', project_type = Member GENERIC,
          auth_type = Member (Variant ''jwt''), is_async = False\<rparr>"]
  by simp

text \<open>
  C10. The auth file depends on \<open>is_async\<close> only: two configurations with authentication
  enabled that agree on \<open>is_async\<close> get the same auth file, whatever their project names,
  project types, output paths and auth variants.
\<close>

theorem auth_file_depends_on_is_async_only:
  fixes c :: "'a Config_scheme" and c' :: "'b Config_scheme"
  assumes "auth_type c \<noteq> Member NONE" and "auth_type c' \<noteq> Member NONE"
    and "is_async c = is_async c'"
  shows "\<exists>s. map_of (generated c) (auth_py c) = Some s
            \<and> map_of (generated c') (auth_py c') = Some s"
  using assms by (simp add: generated_lookup get_auth_endpoints_template_def)

theorem auth_file_depends_on_is_async_only_witness:
  "\<exists>s. map_of (generated \<lparr>name = ''shop'', path = ''out'', project_type = Member ML_API,
                           auth_type = Member (Variant ''jwt''), is_async = True\<rparr>)
          ''out/app/api/v1/auth.py'' = Some s
      \<and> map_of (generated \<lparr>name = ''billing'', path = ''srv'', project_type = Member MICROSERVICE,
                             auth_type = Member (Variant ''oauth2''), is_async = True\<rparr>)
          ''srv/app/api/v1/auth.py'' = Some s"
  using auth_file_depends_on_is_async_only
    [of "\<lparr>name = ''shop'', path = ''out'', project_type = Member ML_API,
          auth_type = Member (Variant ''jwt''), is_async = True\<rparr>"
        "\<lparr>name = ''billing'', path = ''srv'', project_type = Member MICROSERVICE,
          auth_type = Member (Variant ''oauth2''), is_async = True\<rparr>"]
  by simp

text \<open>
  C7. The scenario \<open>MICROSERVICE\<close>, authentication enabled, \<open>is_async = false\<close>: three files
  are written, to three different paths. The auth file declares exactly four endpoints, in
  this order: \<^verbatim>\<open>POST /token\<close>, \<^verbatim>\<open>POST /register\<close>, \<^verbatim>\<open>GET /me\<close> and \<^verbatim>\<open>PUT /me\<close>. It imports
  \<^verbatim>\<open>Session\<close> from \<^verbatim>\<open>sqlalchemy.orm\<close>, types the database handle as \<^verbatim>\<open>Session\<close> and calls the
  three data-access functions without \<^verbatim>\<open>await\<close>; neither \<^verbatim>\<open>AsyncSession\<close> nor
  \<^verbatim>\<open>sqlalchemy.ext.asyncio\<close> nor \<^verbatim>\<open>await\<close> occurs in it. (The handlers are \<^verbatim>\<open>async def\<close> in both
  modes; that keyword is no part of the database-access idiom.) The index file mounts the
  auth router under \<^verbatim>\<open>/auth\<close> with the tag \<^verbatim>\<open>authentication\<close>.
\<close>

theorem microservice_sync_auth_scenario:
  assumes "project_type c = Member MICROSERVICE" and "auth_type c \<noteq> Member NONE"
    and "\<not> is_async c"
  shows \<open>length (generated c) = 3
    \<and> map fst (generated c) = [endpoints_py c, auth_py c, init_py c]
    \<and> distinct (map fst (generated c))
    \<and> map_of (generated c) (auth_py c) = Some (get_auth_endpoints_template c)
    \<and> routes (get_auth_endpoints_template c) =
         [''@router.post("/token", response_model=Token)'',
          ''@router.post("/register", response_model=UserSchema, status_code=status.HTTP_201_CREATED)'',
          ''@router.get("/me", response_model=UserSchema)'',
          ''@router.put("/me", response_model=UserSchema)'']
    \<and> sublist ''from sqlalchemy.orm import Session'' (get_auth_endpoints_template c)
    \<and> sublist ''db: Session = Depends(get_db)'' (get_auth_endpoints_template c)
    \<and> sublist ''user = authenticate_user('' (get_auth_endpoints_template c)
    \<and> sublist ''existing_user = get_user_by_email('' (get_auth_endpoints_template c)
    \<and> sublist ''user = create_user('' (get_auth_endpoints_template c)
    \<and> \<not> sublist ''AsyncSession'' (get_auth_endpoints_template c)
    \<and> \<not> sublist ''sqlalchemy.ext.asyncio'' (get_auth_endpoints_template c)
    \<and> \<not> sublist ''await'' (get_auth_endpoints_template c)
    \<and> map_of (generated c) (init_py c) = Some (get_init_template c)
    \<and> sublist ''router.include_router(auth_router, prefix="/auth", tags=["authentication"])''
         (get_init_template c)\<close>
proof -
  have auth: "get_auth_endpoints_template c
      = auth_endpoints_fstring ''from sqlalchemy.orm import Session'' ''Session'' ''''"
    using assms by (simp add: get_auth_endpoints_template_def)
  have \<open>routes (get_auth_endpoints_template c) =
         [''@router.post("/token", response_model=Token)'',
          ''@router.post("/register", response_model=UserSchema, status_code=status.HTTP_201_CREATED)'',
          ''@router.get("/me", response_model=UserSchema)'',
          ''@router.put("/me", response_model=UserSchema)'']\<close>
    unfolding auth by (rule routes_auth_endpoints_fstring) simp_all
  moreover have "length (generated c) = 3" and "distinct (map fst (generated c))"
    using assms by (simp_all add: generated_eq)
  ultimately show ?thesis
    using assms
    by (simp add: generated_paths generated_lookup get_init_template_def init_auth_scan)
       (simp add: auth auth_sync_scan)
qed

theorem microservice_sync_auth_scenario_witness:
  \<open>length (generated \<lparr>name = ''billing'', path = ''srv'', project_type = Member MICROSERVICE,
                       auth_type = Member (Variant ''jwt''), is_async = False\<rparr>) = 3
    \<and> routes (get_auth_endpoints_template
          \<lparr>name = ''billing'', path = ''srv'', project_type = Member MICROSERVICE,
            auth_type = Member (Variant ''jwt''), is_async = False\<rparr>) =
         [''@router.post("/token", response_model=Token)'',
          ''@router.post("/register", response_model=UserSchema, status_code=status.HTTP_201_CREATED)'',
          ''@router.get("/me", response_model=UserSchema)'',
          ''@router.put("/me", response_model=UserSchema)'']
    \<and> \<not> sublist ''await'' (get_auth_endpoints_template
          \<lparr>name = ''billing'', path = ''srv'', project_type = Member MICROSERVICE,
            auth_type = Member (Variant ''jwt''), is_async = False\<rparr>)\<close>
  using microservice_sync_auth_scenario
    [of "\<lparr>name = ''billing'', path = ''srv'', project_type = Member MICROSERVICE,
          auth_type = Member (Variant ''jwt''), is_async = False\<rparr>"]
  by simp

text \<open>
  C6 (as amended). The generator validates nothing and has no configuration error. A value
  outside an enum is only compared with members; for such a value with ordinary equality,
  which is unequal to every member, the run does not fail: it returns after handing the
  writer the complete file set, two files or three. Such a project type gets the empty
  project-specific fragment, and such an auth type, being unequal to \<open>NONE\<close>, is treated as
  authentication enabled.
\<close>

theorem generate_accepts_foreign_values:
  \<open>((\<exists>v. project_type c = Foreign v) \<or> (\<exists>v. auth_type c = Foreign v) \<longrightarrow>
       generate c fs = (Returned, fs @ generated c)
       \<and> (length (generated c) = 2 \<or> length (generated c) = 3))
    \<and> (\<forall>v. project_type c = Foreign v \<longrightarrow> project_specific_endpoints c = Inr '''')
    \<and> (\<forall>v. auth_type c = Foreign v \<longrightarrow>
          map fst (generated c) = [endpoints_py c, auth_py c, init_py c])\<close>
  by (auto simp add: generate_eq generated_eq project_specific_endpoints_def)

theorem generate_accepts_foreign_values_witness:
  \<open>generate \<lparr>name = ''shop'', path = ''out'', project_type = Foreign ''blog'',
             auth_type = Foreign ''ldap'', is_async = False\<rparr> []
      = (Returned, generated \<lparr>name = ''shop'', path = ''out'', project_type = Foreign ''blog'',
                              auth_type = Foreign ''ldap'', is_async = False\<rparr>)
    \<and> project_specific_endpoints
         \<lparr>name = ''shop'', path = ''out'', project_type = Foreign ''blog'',
           auth_type = Foreign ''ldap'', is_async = False\<rparr> = Inr ''''
    \<and> map fst (generated \<lparr>name = ''shop'', path = ''out'', project_type = Foreign ''blog'',
                          auth_type = Foreign ''ldap'', is_async = False\<rparr>)
       = [''out/app/api/v1/endpoints.py'', ''out/app/api/v1/auth.py'',
          ''out/app/api/v1/__init__.py'']\<close>
  using generate_accepts_foreign_values
    [of "\<lparr>name = ''shop'', path = ''out'', project_type = Foreign ''blog'',
          auth_type = Foreign ''ldap'', is_async = False\<rparr>" "[]"]
  by simp

text \<open>
  The claim as stated fails at a configuration whose project type is the string
  \<^verbatim>\<open>'blog'\<close>, and at one whose auth type is the string \<^verbatim>\<open>'ldap'\<close>: both runs return and write
  their files.
\<close>

theorem configuration_error_counterexample:
  \<open>generate \<lparr>name = ''shop'', path = ''out'', project_type = Foreign ''blog'',
             auth_type = Member NONE, is_async = False\<rparr> []
     = (Returned,
        [(''out/app/api/v1/endpoints.py'',
          endpoints_content \<lparr>name = ''shop'', path = ''out'', project_type = Foreign ''blog'',
                             auth_type = Member NONE, is_async = False\<rparr>),
         (''out/app/api/v1/__init__.py'', init_template_plain)])
    \<and> generate \<lparr>name = ''shop'', path = ''out'', project_type = Member GENERIC,
                 auth_type = Foreign ''ldap'', is_async = False\<rparr> []
     = (Returned,
        [(''out/app/api/v1/endpoints.py'',
          endpoints_content \<lparr>name = ''shop'', path = ''out'', project_type = Member GENERIC,
                             auth_type = Foreign ''ldap'', is_async = False\<rparr>),
         (''out/app/api/v1/auth.py'',
          auth_endpoints_fstring ''from sqlalchemy.orm import Session'' ''Session'' ''''),
         (''out/app/api/v1/__init__.py'', init_template_auth)])\<close>
  by (simp add: generate_eq generated_eq get_init_template_def get_auth_endpoints_template_def)

subsection \<open>The endpoints file by parts\<close>

lemma has_auth_no_newline: "CHR ''\<newline>'' \<notin> set (has_auth c)"
  by (simp add: has_auth_def)

lemma has_auth_scan:
  \<open>\<not> sublist ''/status'' (has_auth c)\<close>
  \<open>\<not> sublist ''/process'' (has_auth c)\<close>
  \<open>\<not> sublist ''/predict'' (has_auth c)\<close>
  \<open>\<not> sublist ''/model/info'' (has_auth c)\<close>
  by (simp_all add: has_auth_def sublist_Cons_right)

lemma unlines_Nil: "unlines [] = []"
  by (simp add: unlines_def)

lemma suffix_unlines_last:
  "ls \<noteq> [] \<Longrightarrow> last ls = l \<Longrightarrow> suffix (l @ ''\<newline>'') (unlines ls)"
  by (induction ls) (auto simp: unlines_Cons unlines_Nil suffix_append suffix_Cons)

lemma fragment_ends_endpoints_content:
  "suffix (fragment c @ ''\<newline>'') (endpoints_content c)"
  unfolding endpoints_content_def endpoints_text_def
  by (rule suffix_unlines_last)
     (simp_all only: last.simps list.simps simp_thms if_False if_True cong: if_weak_cong)


text \<open>Splitting at line feeds is compositional, so the routes of a text are those of its lines.\<close>

lemma split_lines_append:
  "split_lines (s @ CHR ''\<newline>'' # t) = split_lines s @ split_lines t"
  by (induction s) (auto split: list.splits simp: split_lines_not_Nil)

lemma routes_append: "routes (s @ CHR ''\<newline>'' # t) = routes s @ routes t"
  by (simp add: routes_def split_lines_append)

lemma routes_unlines_concat: "routes (unlines ls) = concat (map routes ls)"
  by (induction ls) (simp_all add: unlines_Cons unlines_Nil routes_append, simp add: routes_def)



text \<open>
  A name that stays inside its literal has no line break, and the microservice fragment has
  a carriage return only where an interpolated value brings one.
\<close>

lemma stays_in_literal_no_line_break:
  assumes "stays_in_literal n"
  shows "CHR ''\<newline>'' \<notin> set n" and "CHR 0x0D \<notin> set n"
proof -
  have low: "32 \<le> (of_char ch :: nat)" if "ch \<in> set n" for ch
    using assms that unfolding stays_in_literal_def list_all_iff by blast
  have lf: "(of_char (CHR ''\<newline>'') :: nat) = 10" and cr: "(of_char (CHR 0x0D) :: nat) = 13"
    by simp_all
  show "CHR ''\<newline>'' \<notin> set n"
    using low[of "CHR ''\<newline>''"] by (simp only: lf) linarith
  show "CHR 0x0D \<notin> set n"
    using low[of "CHR 0x0D"] by (simp only: cr) linarith
qed

lemma sublist_single: "sublist [x] s \<longleftrightarrow> x \<in> set s"
  by (induction s) (auto simp: sublist_Cons_right)

lemma has_auth_no_carriage_return: "CHR 0x0D \<notin> set (has_auth c)"
  by (simp add: has_auth_def)

lemma microservice_endpoints_text_no_carriage_return:
  "CHR 0x0D \<in> set (microservice_endpoints_text n h) \<longleftrightarrow> CHR 0x0D \<in> set n \<or> CHR 0x0D \<in> set h"
proof -
  have "sublist [CHR 0x0D] (microservice_endpoints_text n h)
      \<longleftrightarrow> sublist [CHR 0x0D] n \<or> sublist [CHR 0x0D] h"
    by (simp only: microservice_endpoints_text_def scan)
  then show ?thesis
    by (simp only: sublist_single)
qed

text \<open>
  C5 (as amended). The project-specific fragment is a dispatch on the project type that
  never fails. \<open>ML_API\<close> yields exactly the two routes \<^verbatim>\<open>POST /predict\<close> and
  \<^verbatim>\<open>GET /model/info\<close>, and neither \<^verbatim>\<open>/status\<close> nor \<^verbatim>\<open>/process\<close> occurs in the fragment.
  \<open>MICROSERVICE\<close> yields a fragment with the route decorators \<^verbatim>\<open>GET /status\<close> and
  \<^verbatim>\<open>POST /process\<close>. The fragment puts the project name into a string literal without
  escaping it: when the name stays inside that literal (no double quote, no backslash, no
  control character), the fragment has no carriage return and its routes are exactly these
  two; and \<^verbatim>\<open>/predict\<close> and \<^verbatim>\<open>/model/info\<close> occur in the fragment exactly when they occur in
  the name. Every other value that is
  unequal to both members, \<open>GENERIC\<close> or a value outside the enum with ordinary equality,
  yields the empty fragment. In each case the fragment is the end of the endpoints file.
\<close>

theorem project_type_dispatch:
  \<open>(project_type c = Member ML_API \<longrightarrow>
      project_specific_endpoints c = Inr (fragment c)
      \<and> routes (fragment c) = [''@router.post("/predict")'', ''@router.get("/model/info")'']
      \<and> \<not> sublist ''/status'' (fragment c) \<and> \<not> sublist ''/process'' (fragment c))
    \<and> (project_type c = Member MICROSERVICE \<longrightarrow>
      project_specific_endpoints c = Inr (fragment c)
      \<and> sublist ''@router.get("/status")'' (fragment c)
      \<and> sublist ''@router.post("/process")'' (fragment c)
      \<and> (stays_in_literal (name c) \<longrightarrow>
           routes (fragment c) = [''@router.get("/status")'', ''@router.post("/process")'']
           \<and> CHR 0x0D \<notin> set (fragment c))
      \<and> (sublist ''/predict'' (fragment c) \<longleftrightarrow> sublist ''/predict'' (name c))
      \<and> (sublist ''/model/info'' (fragment c) \<longleftrightarrow> sublist ''/model/info'' (name c)))
    \<and> (project_type c \<noteq> Member ML_API \<and> project_type c \<noteq> Member MICROSERVICE \<longrightarrow>
      project_specific_endpoints c = Inr '''')
    \<and> map_of (generated c) (endpoints_py c) = Some (endpoints_content c)
    \<and> suffix (fragment c @ ''\<newline>'') (endpoints_content c)\<close>
proof -
  have ml: \<open>routes (fragment c) = [''@router.post("/predict")'', ''@router.get("/model/info")'']
      \<and> \<not> sublist ''/status'' (fragment c) \<and> \<not> sublist ''/process'' (fragment c)\<close>
    if "project_type c = Member ML_API"
    using that
    by (simp add: fragment_def routes_ml_endpoints_text has_auth_no_newline
        ml_endpoints_text_scan has_auth_scan)
  have micro: \<open>sublist ''@router.get("/status")'' (fragment c)
      \<and> sublist ''@router.post("/process")'' (fragment c)
      \<and> (stays_in_literal (name c) \<longrightarrow>
           routes (fragment c) = [''@router.get("/status")'', ''@router.post("/process")'']
           \<and> CHR 0x0D \<notin> set (fragment c))
      \<and> (sublist ''/predict'' (fragment c) \<longleftrightarrow> sublist ''/predict'' (name c))
      \<and> (sublist ''/model/info'' (fragment c) \<longleftrightarrow> sublist ''/model/info'' (name c))\<close>
    if "project_type c = Member MICROSERVICE"
    using that
    by (simp add: fragment_def routes_microservice_endpoints_text has_auth_no_newline
        microservice_endpoints_text_scan has_auth_scan fragment_positive
        stays_in_literal_no_line_break microservice_endpoints_text_no_carriage_return
        has_auth_no_carriage_return)
  have other: "project_specific_endpoints c = Inr ''''"
    if "project_type c \<noteq> Member ML_API \<and> project_type c \<noteq> Member MICROSERVICE"
    using that by (simp add: project_specific_endpoints_def)
  from ml micro other show ?thesis
    by (simp add: project_specific_endpoints_eq generated_lookup
        fragment_ends_endpoints_content)
qed

theorem project_type_dispatch_witness:
  \<open>routes (fragment \<lparr>name = ''shop'', path = ''out'', project_type = Member ML_API,
                      auth_type = Member (Variant ''jwt''), is_async = True\<rparr>)
      = [''@router.post("/predict")'', ''@router.get("/model/info")'']
    \<and> routes (fragment \<lparr>name = ''billing'', path = ''srv'', project_type = Member MICROSERVICE,
                        auth_type = Member NONE, is_async = False\<rparr>)
      = [''@router.get("/status")'', ''@router.post("/process")'']
    \<and> \<not> sublist ''/predict''
         (fragment \<lparr>name = ''billing'', path = ''srv'', project_type = Member MICROSERVICE,
                    auth_type = Member NONE, is_async = False\<rparr>)
    \<and> project_specific_endpoints
         \<lparr>name = ''shop'', path = ''out'', project_type = Member GENERIC,
           auth_type = Member NONE, is_async = False\<rparr> = Inr ''''
    \<and> project_specific_endpoints
         \<lparr>name = ''shop'', path = ''out'', project_type = Foreign ''blog'',
           auth_type = Member NONE, is_async = False\<rparr> = Inr ''''\<close>
  using
    project_type_dispatch
      [of "\<lparr>name = ''shop'', path = ''out'', project_type = Member ML_API,
            auth_type = Member (Variant ''jwt''), is_async = True\<rparr>"]
    project_type_dispatch
      [of "\<lparr>name = ''billing'', path = ''srv'', project_type = Member MICROSERVICE,
            auth_type = Member NONE, is_async = False\<rparr>"]
    project_type_dispatch
      [of "\<lparr>name = ''shop'', path = ''out'', project_type = Member GENERIC,
            auth_type = Member NONE, is_async = False\<rparr>"]
    project_type_dispatch
      [of "\<lparr>name = ''shop'', path = ''out'', project_type = Foreign ''blog'',
            auth_type = Member NONE, is_async = False\<rparr>"]
  by (simp add: sublist_Cons_right stays_in_literal_def)

text \<open>
  The claim as stated fails for \<open>MICROSERVICE\<close> at a project name that leaves its string
  literal: the name below closes the literal and the dictionary of the status endpoint,
  declares a prediction and a model-info endpoint, and opens a dictionary that the rest of
  the template closes. The fragment is well-formed Python with four endpoints.
\<close>

theorem project_type_dispatch_counterexample:
  \<open>project_specific_endpoints
      \<lparr>name = ''x"}\<newline>\<newline>@router.post("/predict")\<newline>async def predict():\<newline>    return {}\<newline>\<newline>@router.get("/model/info")\<newline>async def get_model_info():\<newline>    return {"a": "b'',
        path = ''out'', project_type = Member MICROSERVICE, auth_type = Member NONE,
        is_async = False\<rparr>
     = Inr (unlines
         ['''',
          ''@router.get("/status")'',
          ''async def service_status():'',
          ''    """Get service status"""'',
          ''    return {'',
          ''        "service": "x"}'',
          '''',
          ''@router.post("/predict")'',
          ''async def predict():'',
          ''    return {}'',
          '''',
          ''@router.get("/model/info")'',
          ''async def get_model_info():'',
          ''    return {"a": "b",'',
          ''        "status": "running",'',
          ''        "version": "1.0.0"'',
          ''    }'',
          '''',
          '''',
          ''@router.post("/process")'',
          ''async def process_data('',
          ''    data: dict,'',
          ''    current_user: User = Depends(get_current_user) if False else None'',
          ''):'',
          ''    """Process data"""'',
          ''    from app.services.processing_service import process_data'',
          ''    try:'',
          ''        result = await process_data(data)'',
          ''        return {"result": result, "status": "processed"}'',
          ''    except Exception as e:'',
          ''        raise HTTPException(status_code=400, detail=str(e))''])
    \<and> routes (unlines
         ['''',
          ''@router.get("/status")'',
          ''async def service_status():'',
          ''    """Get service status"""'',
          ''    return {'',
          ''        "service": "x"}'',
          '''',
          ''@router.post("/predict")'',
          ''async def predict():'',
          ''    return {}'',
          '''',
          ''@router.get("/model/info")'',
          ''async def get_model_info():'',
          ''    return {"a": "b",'',
          ''        "status": "running",'',
          ''        "version": "1.0.0"'',
          ''    }'',
          '''',
          '''',
          ''@router.post("/process")'',
          ''async def process_data('',
          ''    data: dict,'',
          ''    current_user: User = Depends(get_current_user) if False else None'',
          ''):'',
          ''    """Process data"""'',
          ''    from app.services.processing_service import process_data'',
          ''    try:'',
          ''        result = await process_data(data)'',
          ''        return {"result": result, "status": "processed"}'',
          ''    except Exception as e:'',
          ''        raise HTTPException(status_code=400, detail=str(e))''])
     = [''@router.get("/status")'', ''@router.post("/predict")'',
        ''@router.get("/model/info")'', ''@router.post("/process")'']\<close>
proof -
  let ?n = \<open>''x"}\<newline>\<newline>@router.post("/predict")\<newline>async def predict():\<newline>    return {}\<newline>\<newline>@router.get("/model/info")\<newline>async def get_model_info():\<newline>    return {"a": "b''\<close>
  let ?c = "\<lparr>name = ?n, path = ''out'', project_type = Member MICROSERVICE,
             auth_type = Member NONE, is_async = False\<rparr>"
  have "project_specific_endpoints ?c = Inr (microservice_endpoints_text ?n ''False'')"
    by (simp add: project_specific_endpoints_eq fragment_def has_auth_def)
  moreover have \<open>microservice_endpoints_text ?n ''False'' = unlines
    ['''',
     ''@router.get("/status")'',
     ''async def service_status():'',
     ''    """Get service status"""'',
     ''    return {'',
     ''        "service": "x"}'',
     '''',
     ''@router.post("/predict")'',
     ''async def predict():'',
     ''    return {}'',
     '''',
     ''@router.get("/model/info")'',
     ''async def get_model_info():'',
     ''    return {"a": "b",'',
     ''        "status": "running",'',
     ''        "version": "1.0.0"'',
     ''    }'',
     '''',
     '''',
     ''@router.post("/process")'',
     ''async def process_data('',
     ''    data: dict,'',
     ''    current_user: User = Depends(get_current_user) if False else None'',
     ''):'',
     ''    """Process data"""'',
     ''    from app.services.processing_service import process_data'',
     ''    try:'',
     ''        result = await process_data(data)'',
     ''        return {"result": result, "status": "processed"}'',
     ''    except Exception as e:'',
     ''        raise HTTPException(status_code=400, detail=str(e))'']\<close>
    by (simp only: microservice_endpoints_text_def unlines_def list.map concat.simps
        append.simps simp_thms)
  moreover have \<open>routes (unlines
    ['''',
     ''@router.get("/status")'',
     ''async def service_status():'',
     ''    """Get service status"""'',
     ''    return {'',
     ''        "service": "x"}'',
     '''',
     ''@router.post("/predict")'',
     ''async def predict():'',
     ''    return {}'',
     '''',
     ''@router.get("/model/info")'',
     ''async def get_model_info():'',
     ''    return {"a": "b",'',
     ''        "status": "running",'',
     ''        "version": "1.0.0"'',
     ''    }'',
     '''',
     '''',
     ''@router.post("/process")'',
     ''async def process_data('',
     ''    data: dict,'',
     ''    current_user: User = Depends(get_current_user) if False else None'',
     ''):'',
     ''    """Process data"""'',
     ''    from app.services.processing_service import process_data'',
     ''    try:'',
     ''        result = await process_data(data)'',
     ''        return {"result": result, "status": "processed"}'',
     ''    except Exception as e:'',
     ''        raise HTTPException(status_code=400, detail=str(e))''])
     = [''@router.get("/status")'', ''@router.post("/predict")'',
        ''@router.get("/model/info")'', ''@router.post("/process")'']\<close>
    by (simp only: lines_scan cong: if_weak_cong)
  ultimately show ?thesis
    by (simp only: simp_thms)
qed

text \<open>
  C4 (as amended). Every generated file is the endpoints file, the auth file or the index
  file. The endpoints file and the auth file carry the database-access idiom that
  \<open>is_async\<close> selects and not the other one. With \<open>is_async\<close> false both import \<^verbatim>\<open>Session\<close>
  from \<^verbatim>\<open>sqlalchemy.orm\<close>; the auth file types the database handle as \<^verbatim>\<open>Session\<close>, calls the
  three data-access functions without \<^verbatim>\<open>await\<close> and contains neither \<^verbatim>\<open>AsyncSession\<close> nor
  \<^verbatim>\<open>sqlalchemy.ext.asyncio\<close> nor \<^verbatim>\<open>await\<close>; in the endpoints file \<^verbatim>\<open>AsyncSession\<close> and
  \<^verbatim>\<open>sqlalchemy.ext.asyncio\<close> occur only if the interpolated project name contains them.
  With \<open>is_async\<close> true both import \<^verbatim>\<open>AsyncSession\<close> from \<^verbatim>\<open>sqlalchemy.ext.asyncio\<close>; the auth
  file types the handle as \<^verbatim>\<open>AsyncSession\<close>, awaits each of the three calls and contains
  neither \<^verbatim>\<open>sqlalchemy.orm\<close> nor a handle typed \<^verbatim>\<open>Session\<close> nor a call that is not awaited;
  in the endpoints file \<^verbatim>\<open>sqlalchemy.orm\<close> occurs only if the project name contains it. The
  index file carries neither idiom. The \<^verbatim>\<open>await\<close> before the service call of the \<open>ML_API\<close>
  and \<open>MICROSERVICE\<close> fragments is written in both modes.
\<close>

theorem sync_async_idioms:
  \<open>set (generated c) \<subseteq>
      {(endpoints_py c, endpoints_content c), (auth_py c, get_auth_endpoints_template c),
       (init_py c, get_init_template c)}
    \<and> (\<not> is_async c \<longrightarrow>
        sublist ''from sqlalchemy.orm import Session'' (endpoints_content c)
      \<and> (sublist ''AsyncSession'' (endpoints_content c) \<longleftrightarrow> sublist ''AsyncSession'' (name c))
      \<and> (sublist ''sqlalchemy.ext.asyncio'' (endpoints_content c)
           \<longleftrightarrow> sublist ''sqlalchemy.ext.asyncio'' (name c))
      \<and> sublist ''from sqlalchemy.orm import Session'' (get_auth_endpoints_template c)
      \<and> sublist ''db: Session = Depends(get_db)'' (get_auth_endpoints_template c)
      \<and> sublist ''user = authenticate_user('' (get_auth_endpoints_template c)
      \<and> sublist ''existing_user = get_user_by_email('' (get_auth_endpoints_template c)
      \<and> sublist ''user = create_user('' (get_auth_endpoints_template c)
      \<and> \<not> sublist ''AsyncSession'' (get_auth_endpoints_template c)
      \<and> \<not> sublist ''sqlalchemy.ext.asyncio'' (get_auth_endpoints_template c)
      \<and> \<not> sublist ''await'' (get_auth_endpoints_template c))
    \<and> (is_async c \<longrightarrow>
        sublist ''from sqlalchemy.ext.asyncio import AsyncSession'' (endpoints_content c)
      \<and> (sublist ''sqlalchemy.orm'' (endpoints_content c) \<longleftrightarrow> sublist ''sqlalchemy.orm'' (name c))
      \<and> sublist ''from sqlalchemy.ext.asyncio import AsyncSession'' (get_auth_endpoints_template c)
      \<and> sublist ''db: AsyncSession = Depends(get_db)'' (get_auth_endpoints_template c)
      \<and> sublist ''user = await authenticate_user('' (get_auth_endpoints_template c)
      \<and> sublist ''existing_user = await get_user_by_email('' (get_auth_endpoints_template c)
      \<and> sublist ''user = await create_user('' (get_auth_endpoints_template c)
      \<and> \<not> sublist ''sqlalchemy.orm'' (get_auth_endpoints_template c)
      \<and> \<not> sublist '': Session'' (get_auth_endpoints_template c)
      \<and> \<not> sublist ''= authenticate_user('' (get_auth_endpoints_template c)
      \<and> \<not> sublist ''= get_user_by_email('' (get_auth_endpoints_template c)
      \<and> \<not> sublist ''= create_user('' (get_auth_endpoints_template c))
    \<and> \<not> sublist ''Session'' (get_init_template c)
    \<and> \<not> sublist ''sqlalchemy'' (get_init_template c)
    \<and> \<not> sublist ''await'' (get_init_template c)
    \<and> (project_type c = Member ML_API \<longrightarrow>
          sublist ''result = await make_prediction(input_data)'' (endpoints_content c))
    \<and> (project_type c = Member MICROSERVICE \<longrightarrow>
          sublist ''result = await process_data(data)'' (endpoints_content c))\<close>
proof -
  have files: "set (generated c) \<subseteq>
      {(endpoints_py c, endpoints_content c), (auth_py c, get_auth_endpoints_template c),
       (init_py c, get_init_template c)}"
    by (auto simp: generated_eq)
  have sync: \<open>sublist ''from sqlalchemy.orm import Session'' (endpoints_content c)\<close>
    if "\<not> is_async c"
    by (rule sublist_trans[OF database_imports_lines(2)[OF that]
          database_imports_in_endpoints_content])
  have async: \<open>sublist ''from sqlalchemy.ext.asyncio import AsyncSession'' (endpoints_content c)\<close>
    if "is_async c"
    by (rule sublist_trans[OF database_imports_lines(3)[OF that]
          database_imports_in_endpoints_content])
  have ml: \<open>sublist ''result = await make_prediction(input_data)'' (endpoints_content c)\<close>
    if "project_type c = Member ML_API"
    by (rule sublist_trans[OF _ fragment_in_endpoints_content])
       (simp add: that fragment_def fragment_positive)
  have micro: \<open>sublist ''result = await process_data(data)'' (endpoints_content c)\<close>
    if "project_type c = Member MICROSERVICE"
    by (rule sublist_trans[OF _ fragment_in_endpoints_content])
       (simp add: that fragment_def fragment_positive)
  have init: \<open>\<not> sublist ''Session'' (get_init_template c)
      \<and> \<not> sublist ''sqlalchemy'' (get_init_template c)
      \<and> \<not> sublist ''await'' (get_init_template c)\<close>
    by (simp add: get_init_template_def init_plain_scan init_auth_scan)
  from files sync async ml micro init show ?thesis
    by (simp add: endpoints_content_scan get_auth_endpoints_template_def auth_sync_scan
        auth_async_scan)
qed

theorem sync_async_idioms_witness:
  \<open>sublist ''from sqlalchemy.orm import Session''
      (endpoints_content \<lparr>name = ''shop'', path = ''out'', project_type = Member ML_API,
                          auth_type = Member (Variant ''jwt''), is_async = False\<rparr>)
    \<and> \<not> sublist ''AsyncSession''
      (endpoints_content \<lparr>name = ''shop'', path = ''out'', project_type = Member ML_API,
                          auth_type = Member (Variant ''jwt''), is_async = False\<rparr>)
    \<and> \<not> sublist ''await''
      (get_auth_endpoints_template \<lparr>name = ''shop'', path = ''out'', project_type = Member ML_API,
                          auth_type = Member (Variant ''jwt''), is_async = False\<rparr>)
    \<and> sublist ''result = await make_prediction(input_data)''
      (endpoints_content \<lparr>name = ''shop'', path = ''out'', project_type = Member ML_API,
                          auth_type = Member (Variant ''jwt''), is_async = False\<rparr>)
    \<and> sublist ''from sqlalchemy.ext.asyncio import AsyncSession''
      (endpoints_content \<lparr>name = ''billing'', path = ''srv'', project_type = Member MICROSERVICE,
                          auth_type = Member (Variant ''jwt''), is_async = True\<rparr>)
    \<and> \<not> sublist ''sqlalchemy.orm''
      (endpoints_content \<lparr>name = ''billing'', path = ''srv'', project_type = Member MICROSERVICE,
                          auth_type = Member (Variant ''jwt''), is_async = True\<rparr>)
    \<and> sublist ''user = await create_user(''
      (get_auth_endpoints_template \<lparr>name = ''billing'', path = ''srv'',
         project_type = Member MICROSERVICE, auth_type = Member (Variant ''jwt''),
         is_async = True\<rparr>)\<close>
  using
    sync_async_idioms
      [of "\<lparr>name = ''shop'', path = ''out'', project_type = Member ML_API,
            auth_type = Member (Variant ''jwt''), is_async = False\<rparr>"]
    sync_async_idioms
      [of "\<lparr>name = ''billing'', path = ''srv'', project_type = Member MICROSERVICE,
            auth_type = Member (Variant ''jwt''), is_async = True\<rparr>"]
  by (simp add: sublist_Cons_right)

text \<open>
  The claim as stated fails on the index file, which carries neither idiom, and on the
  endpoints file of a synchronous \<open>ML_API\<close> project, where the \<^verbatim>\<open>Session\<close> import stands
  beside an \<^verbatim>\<open>await\<close>.
\<close>

theorem sync_async_idioms_counterexample:
  \<open>map_of (generated \<lparr>name = ''shop'', path = ''out'', project_type = Member ML_API,
                       auth_type = Member NONE, is_async = False\<rparr>)
       ''out/app/api/v1/__init__.py'' = Some init_template_plain
    \<and> \<not> sublist ''Session'' init_template_plain
    \<and> \<not> sublist ''await'' init_template_plain
    \<and> map_of (generated \<lparr>name = ''shop'', path = ''out'', project_type = Member ML_API,
                          auth_type = Member NONE, is_async = False\<rparr>)
       ''out/app/api/v1/endpoints.py''
       = Some (endpoints_content \<lparr>name = ''shop'', path = ''out'', project_type = Member ML_API,
                                  auth_type = Member NONE, is_async = False\<rparr>)
    \<and> sublist ''from sqlalchemy.orm import Session''
         (endpoints_content \<lparr>name = ''shop'', path = ''out'', project_type = Member ML_API,
                             auth_type = Member NONE, is_async = False\<rparr>)
    \<and> sublist ''await make_prediction''
         (endpoints_content \<lparr>name = ''shop'', path = ''out'', project_type = Member ML_API,
                             auth_type = Member NONE, is_async = False\<rparr>)\<close>
proof -
  let ?c = "\<lparr>name = ''shop'', path = ''out'', project_type = Member ML_API,
             auth_type = Member NONE, is_async = False\<rparr>"
  have "sublist ''from sqlalchemy.orm import Session'' (endpoints_content ?c)"
    by (rule sublist_trans[OF database_imports_lines(2) database_imports_in_endpoints_content])
       simp
  moreover have "sublist ''await make_prediction'' (ml_endpoints_text h)" for h
    by (simp only: ml_endpoints_text_def scan)
  then have "sublist ''await make_prediction'' (endpoints_content ?c)"
    by (rule sublist_trans[OF _ fragment_in_endpoints_content[of ?c, simplified fragment_def, simplified]])
  ultimately show ?thesis
    using generated_lookup(1,2)[of ?c]
    by (simp add: get_init_template_def init_plain_scan)
qed

subsection \<open>The error branches the auth file spells out\<close>

text \<open>
  What the login and registration endpoints do when the generated application runs is the
  behaviour of emitted text, not of the generator. The text itself is fixed: in both modes
  the login endpoint raises with \<^verbatim>\<open>HTTP_401_UNAUTHORIZED\<close> and returns the token, and the
  registration endpoint raises with \<^verbatim>\<open>HTTP_400_BAD_REQUEST\<close> when the email is registered
  already (no \<^verbatim>\<open>409\<close> or \<^verbatim>\<open>CONFLICT\<close> status occurs in the file) and returns the new user.
\<close>

lemma auth_file_error_branches:
  \<open>sublist ''status_code=status.HTTP_401_UNAUTHORIZED,'' (get_auth_endpoints_template c)\<close>
  \<open>sublist ''detail="Incorrect email or password",'' (get_auth_endpoints_template c)\<close>
  \<open>sublist ''return {"access_token": access_token, "token_type": "bearer"}''
     (get_auth_endpoints_template c)\<close>
  \<open>sublist ''status_code=status.HTTP_400_BAD_REQUEST,'' (get_auth_endpoints_template c)\<close>
  \<open>sublist ''detail="Email already registered"'' (get_auth_endpoints_template c)\<close>
  \<open>\<not> sublist ''409'' (get_auth_endpoints_template c)\<close>
  \<open>\<not> sublist ''CONFLICT'' (get_auth_endpoints_template c)\<close>
  by (cases "is_async c";
      simp only: get_auth_endpoints_template_def auth_endpoints_fstring_def scan if_True if_False)+

end
